theory Spec2Isabelle
  imports Main "HOL-Library.Multiset"
begin

section \<open>Data model of the fraud insight tools (src/index.ts)\<close>

text \<open>
  The objects of the payments provider are read-only views. The records keep the
  identifiers and every field that the control flow or the evaluator reads; fields that are
  only copied into the summaries for display (amounts, currency, timestamps, metadata) are
  left out. A field of the provider that is either \<^verbatim>\<open>null\<close>, an identifier string or
  an expanded object is an \<open>expandable\<close>.
\<close>

datatype FraudAction = refund | manual_review | monitor

record FraudRecommendation =
  action :: FraudAction
  reason :: string

datatype 'a expandable = Absent | Ref string | Expanded 'a

record Outcome =
  network_status :: "string option"
  outcome_reason :: "string option"
  risk_level :: "string option"
  risk_score :: "int option"
  seller_message :: "string option"
  outcome_type :: "string option"

record Review =
  review_id :: string
  review_open :: bool
  review_reason :: "string option"
  closed_reason :: "string option"

record Refund =
  refund_id :: string
  refund_amount :: int
  refund_status :: "string option"
  refund_reason :: "string option"

record Dispute =
  dispute_id :: string
  dispute_amount :: int
  dispute_status :: string
  dispute_reason :: "string option"

record EarlyFraudWarning =
  warning_id :: string
  actionable :: bool
  fraud_type :: string

datatype Charge = Charge
    (ch_id: string)
    (outcome: "Outcome option")
    (review: "Review expandable")
    (payment_intent: "PaymentIntent expandable")
    (refunds: "Refund list option")
and PaymentIntent = PaymentIntent
    (pi_id: string)
    (pi_status: string)
    (latest_charge: "Charge expandable")

section \<open>Numbers in template strings\<close>

text \<open>
  The risk score is an integer of the provider; a template literal prints it in decimal.
\<close>

definition digit_char :: "nat \<Rightarrow> char" where
  "digit_char d = char_of (48 + d)"

fun showNat :: "nat \<Rightarrow> string" where
  "showNat n = (if n < 10 then [digit_char n] else showNat (n div 10) @ [digit_char (n mod 10)])"

definition showInt :: "int \<Rightarrow> string" where
  "showInt i = (if i < 0 then CHR ''-'' # showNat (nat (- i)) else showNat (nat i))"

section \<open>The evaluator\<close>

text \<open>
  \<^verbatim>\<open>deriveRecommendation({ charge, earlyFraudWarnings, disputes })\<close>, lines 775-822.
  \<^verbatim>\<open>charge.outcome?.risk_level ?? null\<close> is an optional string,
  \<^verbatim>\<open>charge.outcome?.risk_score ?? 0\<close> defaults an absent score to 0.
\<close>

definition riskLevel_of :: "Charge \<Rightarrow> string option" where
  "riskLevel_of charge = (case outcome charge of None \<Rightarrow> None | Some oc \<Rightarrow> risk_level oc)"

definition riskScore_of :: "Charge \<Rightarrow> int" where
  "riskScore_of charge =
     (case outcome charge of None \<Rightarrow> 0
      | Some oc \<Rightarrow> (case risk_score oc of None \<Rightarrow> 0 | Some s \<Rightarrow> s))"

definition high_risk_reason :: "string option \<Rightarrow> int \<Rightarrow> string" where
  "high_risk_reason riskLevel riskScore =
     ''High risk detected (level: '' @ (case riskLevel of None \<Rightarrow> ''n/a'' | Some l \<Rightarrow> l)
       @ '', score: '' @ showInt riskScore @ '').''"

definition deriveRecommendation ::
  "Charge \<Rightarrow> EarlyFraudWarning list \<Rightarrow> Dispute list \<Rightarrow> FraudRecommendation" where
  "deriveRecommendation charge earlyFraudWarnings disputes =
     (if length disputes > 0 then
        \<lparr>action = refund,
         reason = ''Existing dispute detected. Prefer immediate refund to reduce losses.''\<rparr>
      else if list_ex actionable earlyFraudWarnings then
        \<lparr>action = refund,
         reason = ''Actionable Radar early fraud warning present. Stripe recommends refunding.''\<rparr>
      else
        let riskLevel = riskLevel_of charge;
            riskScore = riskScore_of charge
        in if riskLevel = Some ''highest'' \<or> riskScore \<ge> 75 then
             \<lparr>action = refund, reason = high_risk_reason riskLevel riskScore\<rparr>
           else if riskLevel = Some ''elevated'' \<or> riskScore \<ge> 50 then
             \<lparr>action = manual_review,
              reason = ''Elevated risk level. Review supporting evidence before issuing refund.''\<rparr>
           else
             \<lparr>action = monitor,
              reason = ''No disputes or actionable warnings. Monitor the transaction for future signals.''\<rparr>)"

section \<open>The evaluator in the running program\<close>

text \<open>
  The types of the source are erased when the program runs: an argument of
  \<^verbatim>\<open>deriveRecommendation\<close>, or an element of the warnings array, can then be
  \<^verbatim>\<open>null\<close> or \<^verbatim>\<open>undefined\<close> (\<open>None\<close> here), and reading a property of such a
  value throws a \<^verbatim>\<open>TypeError\<close>, which carries the name of the property. The optional
  reads \<^verbatim>\<open>charge.outcome?.risk_level\<close> and \<^verbatim>\<open>charge.outcome?.risk_score\<close> do not
  throw on an absent outcome.

  A function of the program also has the logger's console and the clock within reach; a
  call is given the \<open>World\<close> it starts in and returns the one it leaves behind.
\<close>

datatype runtime_error = TypeError string

record World =
  console :: "string list"
  clock :: int

text \<open>
  \<^verbatim>\<open>earlyFraudWarnings.some((warning) => warning.actionable)\<close> visits the elements in
  order and stops at the first one whose flag is set.
\<close>

fun someActionable :: "EarlyFraudWarning option list \<Rightarrow> runtime_error + bool" where
  "someActionable [] = Inr False"
| "someActionable (None # rest) = Inl (TypeError ''actionable'')"
| "someActionable (Some warning # rest) =
     (if actionable warning then Inr True else someActionable rest)"

definition deriveRecommendation_runtime ::
  "World \<Rightarrow> Charge option \<Rightarrow> EarlyFraudWarning option list option \<Rightarrow> Dispute list option \<Rightarrow>
   (runtime_error + FraudRecommendation) \<times> World" where
  "deriveRecommendation_runtime world charge earlyFraudWarnings disputes =
     (case disputes of
        None \<Rightarrow> (Inl (TypeError ''length''), world)
      | Some ds \<Rightarrow>
          if length ds > 0 then
            (Inr \<lparr>action = refund,
                  reason = ''Existing dispute detected. Prefer immediate refund to reduce losses.''\<rparr>,
             world)
          else
            (case earlyFraudWarnings of
               None \<Rightarrow> (Inl (TypeError ''some''), world)
             | Some ws \<Rightarrow>
                 (case someActionable ws of
                    Inl e \<Rightarrow> (Inl e, world)
                  | Inr True \<Rightarrow>
                      (Inr \<lparr>action = refund,
                            reason = ''Actionable Radar early fraud warning present. Stripe recommends refunding.''\<rparr>,
                       world)
                  | Inr False \<Rightarrow>
                      (case charge of
                         None \<Rightarrow> (Inl (TypeError ''outcome''), world)
                       | Some c \<Rightarrow>
                           let riskLevel = riskLevel_of c;
                               riskScore = riskScore_of c
                           in if riskLevel = Some ''highest'' \<or> riskScore \<ge> 75 then
                                (Inr \<lparr>action = refund,
                                      reason = high_risk_reason riskLevel riskScore\<rparr>,
                                 world)
                              else if riskLevel = Some ''elevated'' \<or> riskScore \<ge> 50 then
                                (Inr \<lparr>action = manual_review,
                                      reason = ''Elevated risk level. Review supporting evidence before issuing refund.''\<rparr>,
                                 world)
                              else
                                (Inr \<lparr>action = monitor,
                                      reason = ''No disputes or actionable warnings. Monitor the transaction for future signals.''\<rparr>,
                                 world)))))"

section \<open>The payments client, tool inputs and the insight result\<close>

text \<open>
  A call of the provider's client either resolves to a value or rejects; a rejected
  \<^verbatim>\<open>await\<close> throws, which is \<open>Inl\<close>. \<^verbatim>\<open>new Error(msg)\<close> thrown by the tools
  themselves is \<open>Error msg\<close>. The client is a parameter of every function that uses it:
  one field for each method the tools call, with the arguments the source passes (the
  identifier and, for the two retrieve methods, the \<^verbatim>\<open>expand\<close> list).
\<close>

datatype error = Error string | StripeError string

record RefundCreateParams =
  params_payment_intent :: "string option"
  params_charge :: "string option"
  params_amount :: "int option"
  params_reason :: "string option"
  params_metadata :: "(string \<times> string) list option"

record Stripe =
  paymentIntents_retrieve :: "string \<Rightarrow> string list \<Rightarrow> error + PaymentIntent"
  charges_retrieve :: "string \<Rightarrow> string list \<Rightarrow> error + Charge"
  charges_list :: "string \<Rightarrow> error + Charge list"
  earlyFraudWarnings_list :: "string \<Rightarrow> error + EarlyFraudWarning list"
  reviews_retrieve :: "string \<Rightarrow> error + Review"
  disputes_list :: "string \<Rightarrow> error + Dispute list"
  refunds_list :: "string \<Rightarrow> error + Refund list"
  refunds_create :: "RefundCreateParams \<Rightarrow> error + Refund"

text \<open>
  Both tools take the two optional identifiers (\<^verbatim>\<open>z.string().trim().optional()\<close>);
  \<^verbatim>\<open>include_events\<close> has the default \<^verbatim>\<open>true\<close> applied by the schema before the
  handler runs.
\<close>

record TargetInput =
  payment_intent_id :: "string option"
  charge_id :: "string option"

record FraudInsightInput = TargetInput +
  include_events :: bool

record RefundInput = TargetInput +
  input_amount :: "int option"
  input_reason :: "string option"
  input_metadata :: "(string \<times> string) list option"

record PaymentIntentSummary =
  summary_pi_id :: string
  summary_pi_status :: string

record ChargeSummary =
  summary_ch_id :: string
  summary_outcome :: "Outcome option"
  summary_review_id :: "string option"

record RadarInsight =
  early_fraud_warnings :: "EarlyFraudWarning list"
  reviews :: "Review list"
  disputes :: "Dispute list"
  radar_refunds :: "Refund list"
  radar_risk_level :: "string option"
  radar_risk_score :: "int option"
  radar_outcome_type :: "string option"
  radar_seller_message :: "string option"

record FraudInsightResult =
  paymentIntent :: "PaymentIntentSummary option"
  charge :: "ChargeSummary option"
  radar :: "RadarInsight option"
  recommendation :: FraudRecommendation

text \<open>
  JavaScript truthiness of an optional string: \<^verbatim>\<open>undefined\<close> and the empty string are
  falsy.
\<close>

definition truthy :: "string option \<Rightarrow> bool" where
  "truthy s = (case s of None \<Rightarrow> False | Some x \<Rightarrow> x \<noteq> [])"

definition summarizePaymentIntent :: "PaymentIntent \<Rightarrow> PaymentIntentSummary" where
  "summarizePaymentIntent p = \<lparr>summary_pi_id = pi_id p, summary_pi_status = pi_status p\<rparr>"

definition summarizeCharge :: "Charge \<Rightarrow> ChargeSummary" where
  "summarizeCharge c =
     \<lparr>summary_ch_id = ch_id c,
      summary_outcome = outcome c,
      summary_review_id =
        (case review c of Expanded r \<Rightarrow> Some (review_id r) | Ref s \<Rightarrow> Some s | Absent \<Rightarrow> None)\<rparr>"

text \<open>
  The summaries of a review, a warning, a dispute and a refund copy fields of the object;
  on the fields kept by the records above they are the object itself.
\<close>

definition summarizeReview :: "Review \<Rightarrow> Review" where
  "summarizeReview r = r"

definition summarizeEarlyFraudWarning :: "EarlyFraudWarning \<Rightarrow> EarlyFraudWarning" where
  "summarizeEarlyFraudWarning w = w"

definition summarizeDispute :: "Dispute \<Rightarrow> Dispute" where
  "summarizeDispute d = d"

definition summarizeRefund :: "Refund \<Rightarrow> Refund" where
  "summarizeRefund r = r"

section \<open>buildFraudInsight\<close>

text \<open>
  \<^verbatim>\<open>buildFraudInsight\<close> (lines 453-655) runs its client calls one after the other and
  mutates three locals: \<^verbatim>\<open>result\<close>, \<^verbatim>\<open>paymentIntent\<close> and \<^verbatim>\<open>charge\<close>. Each
  \<^verbatim>\<open>if\<close> block of the source is one function here, from the three locals to the three
  locals, or to the error of the first rejected call. The logger calls write to the console
  only and are not part of the returned value; they are left out.
\<close>

type_synonym locals = "FraudInsightResult \<times> PaymentIntent option \<times> Charge option"

definition baseline :: FraudInsightResult where
  "baseline =
     \<lparr>paymentIntent = None, charge = None, radar = None,
      recommendation =
        \<lparr>action = monitor, reason = ''Baseline recommendation before risk analysis.''\<rparr>\<rparr>"

definition expand_latest_charge :: "string list" where
  "expand_latest_charge =
     [''latest_charge'', ''latest_charge.outcome'', ''latest_charge.review'',
      ''latest_charge.payment_method_details'', ''latest_charge.refunds'']"

definition expand_charge :: "string list" where
  "expand_charge =
     [''outcome'', ''review'', ''payment_intent'', ''payment_method_details'', ''refunds'']"

text \<open>Lines 473-515: \<^verbatim>\<open>if (input.payment_intent_id) { ... }\<close>.\<close>

definition byPaymentIntent :: "Stripe \<Rightarrow> FraudInsightInput \<Rightarrow> locals \<Rightarrow> error + locals" where
  "byPaymentIntent stripe input st =
     (case st of (result, pint, ch) \<Rightarrow>
      (case payment_intent_id input of
         None \<Rightarrow> Inr st
       | Some pid \<Rightarrow>
           if pid = [] then Inr st
           else
             (case paymentIntents_retrieve stripe pid expand_latest_charge of
                Inl e \<Rightarrow> Inl e
              | Inr p \<Rightarrow>
                  let result' = result\<lparr>paymentIntent := Some (summarizePaymentIntent p)\<rparr>
                  in (case latest_charge p of
                        Expanded c \<Rightarrow> Inr (result', Some p, Some c)
                      | Ref cid \<Rightarrow>
                          (case charges_retrieve stripe cid expand_charge of
                             Inl e \<Rightarrow> Inl e
                           | Inr c \<Rightarrow> Inr (result', Some p, Some c))
                      | Absent \<Rightarrow> Inr (result', Some p, ch)))))"

text \<open>Lines 517-556: \<^verbatim>\<open>if (input.charge_id) { ... }\<close>.\<close>

definition byCharge :: "Stripe \<Rightarrow> FraudInsightInput \<Rightarrow> locals \<Rightarrow> error + locals" where
  "byCharge stripe input st =
     (case st of (result, pint, ch) \<Rightarrow>
      (case charge_id input of
         None \<Rightarrow> Inr st
       | Some cid \<Rightarrow>
           if cid = [] then Inr st
           else
             (case charges_retrieve stripe cid expand_charge of
                Inl e \<Rightarrow> Inl e
              | Inr c \<Rightarrow>
                  let result' = result\<lparr>charge := Some (summarizeCharge c)\<rparr>
                  in (case payment_intent c of
                        Ref pid \<Rightarrow>
                          if pid \<noteq> [] \<and> pint = None then
                            (case paymentIntents_retrieve stripe pid [''latest_charge''] of
                               Inl e \<Rightarrow> Inl e
                             | Inr p \<Rightarrow>
                                 Inr (result'\<lparr>paymentIntent := Some (summarizePaymentIntent p)\<rparr>,
                                      Some p, Some c))
                          else Inr (result', pint, Some c)
                      | Expanded p \<Rightarrow>
                          Inr (result'\<lparr>paymentIntent := Some (summarizePaymentIntent p)\<rparr>,
                               Some p, Some c)
                      | Absent \<Rightarrow> Inr (result', pint, Some c)))))"

text \<open>
  Lines 558-575: \<^verbatim>\<open>if (!charge && paymentIntent?.id) { ... }\<close>, with
  \<^verbatim>\<open>chargeList.data[0] ?? null\<close> the first element of the list, if any.
\<close>

definition byChargeList :: "Stripe \<Rightarrow> locals \<Rightarrow> error + locals" where
  "byChargeList stripe st =
     (case st of (result, pint, ch) \<Rightarrow>
      (case (ch, pint) of
         (None, Some p) \<Rightarrow>
           if pi_id p = [] then Inr st
           else
             (case charges_list stripe (pi_id p) of
                Inl e \<Rightarrow> Inl e
              | Inr data \<Rightarrow>
                  (case data of
                     [] \<Rightarrow> Inr (result, pint, None)
                   | c # _ \<Rightarrow> Inr (result\<lparr>charge := Some (summarizeCharge c)\<rparr>, pint, Some c)))
       | _ \<Rightarrow> Inr st))"

text \<open>Lines 463-575: the locals when the source reaches \<^verbatim>\<open>if (charge)\<close>.\<close>

definition resolveCharge :: "Stripe \<Rightarrow> FraudInsightInput \<Rightarrow> error + locals" where
  "resolveCharge stripe input =
     (case byPaymentIntent stripe input (baseline, None, None) of
        Inl e \<Rightarrow> Inl e
      | Inr st1 \<Rightarrow>
          (case byCharge stripe input st1 of
             Inl e \<Rightarrow> Inl e
           | Inr st2 \<Rightarrow> byChargeList stripe st2))"

text \<open>Lines 582-593: the review of the charge, retrieved when only its identifier is there.\<close>

definition collectReviews :: "Stripe \<Rightarrow> Charge \<Rightarrow> error + Review list" where
  "collectReviews stripe c =
     (case review c of
        Absent \<Rightarrow> Inr []
      | Ref rid \<Rightarrow>
          if rid = [] then Inr []
          else (case reviews_retrieve stripe rid of
                  Inl e \<Rightarrow> Inl e
                | Inr r \<Rightarrow> Inr [summarizeReview r])
      | Expanded r \<Rightarrow> Inr [summarizeReview r])"

text \<open>Lines 595-602: disputes are listed only when \<^verbatim>\<open>include_events\<close> is set.\<close>

definition collectDisputes :: "Stripe \<Rightarrow> FraudInsightInput \<Rightarrow> Charge \<Rightarrow> error + Dispute list" where
  "collectDisputes stripe input c =
     (if include_events input then disputes_list stripe (ch_id c) else Inr [])"

text \<open>Lines 604-614: the refunds expanded on the charge, else listed, else none.\<close>

definition collectRefunds :: "Stripe \<Rightarrow> FraudInsightInput \<Rightarrow> Charge \<Rightarrow> error + Refund list" where
  "collectRefunds stripe input c =
     (case refunds c of
        Some data \<Rightarrow> Inr data
      | None \<Rightarrow> if include_events input then refunds_list stripe (ch_id c) else Inr [])"

text \<open>
  Lines 577-652, \<^verbatim>\<open>if (charge) { ... } else { ... }\<close>. The evaluator that line 637 calls
  is the parameter \<open>evaluate\<close>, so that a property can say which arguments it is called
  with and whether the result depends on it at all; \<open>buildFraudInsight\<close> below is the
  source's function, with \<open>deriveRecommendation\<close> in that place.
\<close>

definition collectRadar ::
  "(Charge \<Rightarrow> EarlyFraudWarning list \<Rightarrow> Dispute list \<Rightarrow> FraudRecommendation) \<Rightarrow>
   Stripe \<Rightarrow> FraudInsightInput \<Rightarrow> FraudInsightResult \<Rightarrow> Charge option \<Rightarrow>
   error + FraudInsightResult" where
  "collectRadar evaluate stripe input result ch =
     (case ch of
        Some c \<Rightarrow>
          let result' =
                (case charge result of
                   None \<Rightarrow> result\<lparr>charge := Some (summarizeCharge c)\<rparr>
                 | Some _ \<Rightarrow> result)
          in (case earlyFraudWarnings_list stripe (ch_id c) of
                Inl e \<Rightarrow> Inl e
              | Inr earlyFraudWarnings \<Rightarrow>
             (case collectReviews stripe c of
                Inl e \<Rightarrow> Inl e
              | Inr reviewList \<Rightarrow>
             (case collectDisputes stripe input c of
                Inl e \<Rightarrow> Inl e
              | Inr disputeData \<Rightarrow>
             (case collectRefunds stripe input c of
                Inl e \<Rightarrow> Inl e
              | Inr refundData \<Rightarrow>
                  Inr (result'
                        \<lparr>radar := Some
                           \<lparr>early_fraud_warnings = map summarizeEarlyFraudWarning earlyFraudWarnings,
                            reviews = reviewList,
                            disputes = map summarizeDispute disputeData,
                            radar_refunds = map summarizeRefund refundData,
                            radar_risk_level =
                              (case outcome c of None \<Rightarrow> None | Some oc \<Rightarrow> risk_level oc),
                            radar_risk_score =
                              (case outcome c of None \<Rightarrow> None | Some oc \<Rightarrow> risk_score oc),
                            radar_outcome_type =
                              (case outcome c of None \<Rightarrow> None | Some oc \<Rightarrow> outcome_type oc),
                            radar_seller_message =
                              (case outcome c of None \<Rightarrow> None | Some oc \<Rightarrow> seller_message oc)\<rparr>,
                         recommendation := evaluate c earlyFraudWarnings disputeData\<rparr>)))))
      | None \<Rightarrow>
          Inr (result
                \<lparr>recommendation :=
                   \<lparr>action = manual_review,
                    reason = ''No charge details available. Review manually before taking action.''\<rparr>\<rparr>))"

definition buildFraudInsightWith ::
  "(Charge \<Rightarrow> EarlyFraudWarning list \<Rightarrow> Dispute list \<Rightarrow> FraudRecommendation) \<Rightarrow>
   Stripe \<Rightarrow> FraudInsightInput \<Rightarrow> error + FraudInsightResult" where
  "buildFraudInsightWith evaluate stripe input =
     (case resolveCharge stripe input of
        Inl e \<Rightarrow> Inl e
      | Inr (result, pint, ch) \<Rightarrow> collectRadar evaluate stripe input result ch)"

definition buildFraudInsight :: "Stripe \<Rightarrow> FraudInsightInput \<Rightarrow> error + FraudInsightResult" where
  "buildFraudInsight = buildFraudInsightWith deriveRecommendation"

section \<open>The tool handlers\<close>

text \<open>
  The handlers of \<^verbatim>\<open>stripe_fraud_insight\<close> (lines 186-240) and
  \<^verbatim>\<open>stripe_create_refund\<close> (lines 251-326). Each \<^verbatim>\<open>catch\<close> block logs and throws
  the same error again. The value here is the \<^verbatim>\<open>structuredContent\<close> of the answer: the
  insight, and the refund the provider created.
\<close>

definition stripe_fraud_insight :: "Stripe \<Rightarrow> FraudInsightInput \<Rightarrow> error + FraudInsightResult" where
  "stripe_fraud_insight stripe input =
     (if \<not> truthy (payment_intent_id input) \<and> \<not> truthy (charge_id input) then
        Inl (Error ''You must provide either payment_intent_id or charge_id to retrieve fraud insights.'')
      else buildFraudInsight stripe input)"

definition refundParams :: "RefundInput \<Rightarrow> RefundCreateParams" where
  "refundParams input =
     \<lparr>params_payment_intent =
        (if truthy (payment_intent_id input) then payment_intent_id input else None),
      params_charge = (if truthy (charge_id input) then charge_id input else None),
      params_amount = input_amount input,
      params_reason = (if truthy (input_reason input) then input_reason input else None),
      params_metadata = input_metadata input\<rparr>"

definition stripe_create_refund :: "Stripe \<Rightarrow> RefundInput \<Rightarrow> error + Refund" where
  "stripe_create_refund stripe input =
     (if \<not> truthy (payment_intent_id input) \<and> \<not> truthy (charge_id input) then
        Inl (Error ''You must provide either payment_intent_id or charge_id to create a refund.'')
      else refunds_create stripe (refundParams input))"

section \<open>The logger's sanitizeContext\<close>












section \<open>Example data\<close>

definition example_outcome :: "string option \<Rightarrow> int option \<Rightarrow> Outcome" where
  "example_outcome lvl score =
     \<lparr>network_status = Some ''approved_by_network'', outcome_reason = None,
      risk_level = lvl, risk_score = score,
      seller_message = Some ''Payment complete.'', outcome_type = Some ''authorized''\<rparr>"

definition example_charge :: "string \<Rightarrow> Outcome option \<Rightarrow> Charge" where
  "example_charge cid oc = Charge cid oc Absent Absent None"

definition example_warning :: "string \<Rightarrow> bool \<Rightarrow> EarlyFraudWarning" where
  "example_warning wid act = \<lparr>warning_id = wid, actionable = act, fraud_type = ''misc''\<rparr>"

definition example_dispute :: "string \<Rightarrow> Dispute" where
  "example_dispute did =
     \<lparr>dispute_id = did, dispute_amount = 1000, dispute_status = ''needs_response'',
      dispute_reason = Some ''fraudulent''\<rparr>"

text \<open>
  A client for the examples: the payment intent \<^verbatim>\<open>pi_1\<close> has no charge at all, the
  charge \<^verbatim>\<open>ch_1\<close> has a normal outcome and one dispute upstream.
\<close>

definition example_stripe :: Stripe where
  "example_stripe =
     \<lparr>paymentIntents_retrieve =
        (\<lambda>pid ex. if pid = ''pi_1''
                   then Inr (PaymentIntent ''pi_1'' ''requires_payment_method'' Absent)
                   else Inl (StripeError ''resource_missing'')),
      charges_retrieve =
        (\<lambda>cid ex. if cid = ''ch_1''
                   then Inr (example_charge ''ch_1'' (Some (example_outcome (Some ''normal'') (Some 12))))
                   else Inl (StripeError ''resource_missing'')),
      charges_list = (\<lambda>pid. Inr []),
      earlyFraudWarnings_list = (\<lambda>cid. Inr []),
      reviews_retrieve = (\<lambda>rid. Inl (StripeError ''resource_missing'')),
      disputes_list = (\<lambda>cid. if cid = ''ch_1'' then Inr [example_dispute ''dp_1''] else Inr []),
      refunds_list = (\<lambda>cid. Inr []),
      refunds_create = (\<lambda>params. Inl (StripeError ''charge_already_refunded''))\<rparr>"

section \<open>Properties of the evaluator\<close>

lemmas example_defs =
  example_outcome_def example_charge_def example_warning_def example_dispute_def

text \<open>
  C1. Whenever the dispute list is not empty, the recommendation is a refund whose reason
  cites the existing dispute, whatever the charge (risk level, risk score) and the early
  fraud warnings are.
\<close>

theorem dispute_forces_refund:
  "ds \<noteq> [] \<Longrightarrow>
   deriveRecommendation c ws ds =
     \<lparr>action = refund,
      reason = ''Existing dispute detected. Prefer immediate refund to reduce losses.''\<rparr>"
  by (simp add: deriveRecommendation_def)

theorem dispute_forces_refund_witness:
  "[example_dispute ''dp_1''] \<noteq> []
   \<and> deriveRecommendation
        (example_charge ''ch_1'' (Some (example_outcome (Some ''normal'') (Some 3))))
        [example_warning ''issfr_1'' False]
        [example_dispute ''dp_1'']
      = \<lparr>action = refund,
         reason = ''Existing dispute detected. Prefer immediate refund to reduce losses.''\<rparr>"
  using dispute_forces_refund
    [of "[example_dispute ''dp_1'']"
        "example_charge ''ch_1'' (Some (example_outcome (Some ''normal'') (Some 3)))"
        "[example_warning ''issfr_1'' False]"]
  by simp

text \<open>
  C2. With an empty dispute list and at least one early fraud warning whose actionable flag
  is set, the recommendation is a refund whose reason cites the actionable warning, whatever
  the risk level and the risk score of the charge are.
\<close>

theorem actionable_warning_forces_refund:
  "ds = [] \<Longrightarrow> \<exists>w \<in> set ws. actionable w \<Longrightarrow>
   deriveRecommendation c ws ds =
     \<lparr>action = refund,
      reason = ''Actionable Radar early fraud warning present. Stripe recommends refunding.''\<rparr>"
  by (simp add: deriveRecommendation_def list_ex_iff)

theorem actionable_warning_forces_refund_witness:
  "([] :: Dispute list) = []
   \<and> (\<exists>w \<in> set [example_warning ''issfr_1'' False, example_warning ''issfr_2'' True].
         actionable w)
   \<and> deriveRecommendation
        (example_charge ''ch_1'' (Some (example_outcome (Some ''normal'') (Some 3))))
        [example_warning ''issfr_1'' False, example_warning ''issfr_2'' True] []
      = \<lparr>action = refund,
         reason = ''Actionable Radar early fraud warning present. Stripe recommends refunding.''\<rparr>"
proof -
  have w: "\<exists>w \<in> set [example_warning ''issfr_1'' False, example_warning ''issfr_2'' True].
             actionable w"
    by (simp add: example_warning_def)
  show ?thesis
    using w actionable_warning_forces_refund [OF refl w] by simp
qed

text \<open>
  C3. With no dispute and no actionable warning, a charge whose outcome has the risk level
  \<^verbatim>\<open>highest\<close>, or a risk score of at least 75, gets a refund, whose reason prints the
  level and the score; and a refund is given in these cases only. The bound is inclusive: a
  score of exactly 75 gives a refund. An absent score counts as 0 and so never reaches the
  threshold: without a score (or without an outcome) the refund comes from the level
  \<^verbatim>\<open>highest\<close> alone.
\<close>

theorem high_risk_refund:
  assumes "ds = []" and "\<forall>w \<in> set ws. \<not> actionable w"
  shows "(\<forall>oc. outcome c = Some oc \<and> risk_level oc = Some ''highest'' \<longrightarrow>
            action (deriveRecommendation c ws ds) = refund)
       \<and> (\<forall>oc s. outcome c = Some oc \<and> risk_score oc = Some s \<and> 75 \<le> s \<longrightarrow>
            action (deriveRecommendation c ws ds) = refund)
       \<and> (\<forall>oc. outcome c = Some oc \<and> risk_score oc = Some 75 \<longrightarrow>
            action (deriveRecommendation c ws ds) = refund)
       \<and> (\<forall>oc. outcome c = Some oc \<and>
               (risk_level oc = Some ''highest'' \<or> (\<exists>s. risk_score oc = Some s \<and> 75 \<le> s)) \<longrightarrow>
            reason (deriveRecommendation c ws ds) =
              high_risk_reason (risk_level oc) (case risk_score oc of None \<Rightarrow> 0 | Some s \<Rightarrow> s))
       \<and> ((outcome c = None \<or> (\<exists>oc. outcome c = Some oc \<and> risk_score oc = None)) \<longrightarrow>
            (action (deriveRecommendation c ws ds) = refund
               \<longleftrightarrow> (\<exists>oc. outcome c = Some oc \<and> risk_level oc = Some ''highest'')))
       \<and> (action (deriveRecommendation c ws ds) = refund \<longrightarrow>
            (\<exists>oc. outcome c = Some oc \<and>
               (risk_level oc = Some ''highest'' \<or> (\<exists>s. risk_score oc = Some s \<and> 75 \<le> s))))"
  using assms
  by (auto simp add: deriveRecommendation_def list_ex_iff riskScore_of_def riskLevel_of_def Let_def
      split: option.splits if_splits)

theorem high_risk_refund_witness:
  "([] :: Dispute list) = []
   \<and> \<not> actionable (example_warning ''issfr_1'' False)
   \<and> deriveRecommendation
        (example_charge ''ch_1'' (Some (example_outcome (Some ''highest'') (Some 10))))
        [example_warning ''issfr_1'' False] []
      = \<lparr>action = refund, reason = ''High risk detected (level: highest, score: 10).''\<rparr>
   \<and> deriveRecommendation (example_charge ''ch_2'' (Some (example_outcome None (Some 75))))
        [example_warning ''issfr_1'' False] []
      = \<lparr>action = refund, reason = ''High risk detected (level: n/a, score: 75).''\<rparr>
   \<and> action (deriveRecommendation
        (example_charge ''ch_3'' (Some (example_outcome (Some ''highest'') None)))
        [example_warning ''issfr_1'' False] []) = refund
   \<and> action (deriveRecommendation
        (example_charge ''ch_4'' (Some (example_outcome (Some ''normal'') None)))
        [example_warning ''issfr_1'' False] []) \<noteq> refund"
proof -
  let ?a = "example_charge ''ch_1'' (Some (example_outcome (Some ''highest'') (Some 10)))"
  let ?b = "example_charge ''ch_2'' (Some (example_outcome None (Some 75)))"
  let ?c = "example_charge ''ch_3'' (Some (example_outcome (Some ''highest'') None))"
  let ?d = "example_charge ''ch_4'' (Some (example_outcome (Some ''normal'') None))"
  let ?ws = "[example_warning ''issfr_1'' False]"
  have w: "\<forall>w \<in> set ?ws. \<not> actionable w"
    by (simp add: example_warning_def)
  have r: "high_risk_reason (Some ''highest'') 10 = ''High risk detected (level: highest, score: 10).''"
    "high_risk_reason None 75 = ''High risk detected (level: n/a, score: 75).''"
    by code_simp+
  have a: "deriveRecommendation ?a ?ws [] =
      \<lparr>action = action (deriveRecommendation ?a ?ws []),
       reason = reason (deriveRecommendation ?a ?ws [])\<rparr>"
    and b: "deriveRecommendation ?b ?ws [] =
      \<lparr>action = action (deriveRecommendation ?b ?ws []),
       reason = reason (deriveRecommendation ?b ?ws [])\<rparr>"
    by simp_all
  from high_risk_refund [OF refl w, of ?a] high_risk_refund [OF refl w, of ?b]
    high_risk_refund [OF refl w, of ?c] high_risk_refund [OF refl w, of ?d]
  show ?thesis
    using w by (subst a, subst b) (simp add: example_defs r)
qed

text \<open>
  C4. With no dispute, no actionable warning and the high-risk rule not met (the outcome has
  neither the level \<^verbatim>\<open>highest\<close> nor a score of at least 75), a charge whose outcome has
  the risk level \<^verbatim>\<open>elevated\<close>, or a risk score of at least 50, gets a manual review, and
  every other charge gets monitoring. A score of exactly 50 gives a manual review; a score of
  49 gives monitoring unless the level is \<^verbatim>\<open>elevated\<close>. With no outcome on the charge, no
  warning and no dispute, the answer is monitoring with the default reason.
\<close>

theorem elevated_review_else_monitor:
  assumes "ds = []" and "\<forall>w \<in> set ws. \<not> actionable w"
    and "\<not> (\<exists>oc. outcome c = Some oc \<and>
               (risk_level oc = Some ''highest'' \<or> (\<exists>s. risk_score oc = Some s \<and> 75 \<le> s)))"
  shows "(\<forall>oc. outcome c = Some oc \<and>
               (risk_level oc = Some ''elevated'' \<or> (\<exists>s. risk_score oc = Some s \<and> 50 \<le> s)) \<longrightarrow>
            deriveRecommendation c ws ds =
              \<lparr>action = manual_review,
               reason = ''Elevated risk level. Review supporting evidence before issuing refund.''\<rparr>)
       \<and> (\<not> (\<exists>oc. outcome c = Some oc \<and>
               (risk_level oc = Some ''elevated'' \<or> (\<exists>s. risk_score oc = Some s \<and> 50 \<le> s))) \<longrightarrow>
            deriveRecommendation c ws ds =
              \<lparr>action = monitor,
               reason = ''No disputes or actionable warnings. Monitor the transaction for future signals.''\<rparr>)
       \<and> (\<forall>oc. outcome c = Some oc \<and> risk_score oc = Some 50 \<longrightarrow>
            action (deriveRecommendation c ws ds) = manual_review)
       \<and> (\<forall>oc. outcome c = Some oc \<and> risk_score oc = Some 49
               \<and> risk_level oc \<noteq> Some ''elevated'' \<longrightarrow>
            action (deriveRecommendation c ws ds) = monitor)
       \<and> (outcome c = None \<and> ws = [] \<longrightarrow>
            deriveRecommendation c ws ds =
              \<lparr>action = monitor,
               reason = ''No disputes or actionable warnings. Monitor the transaction for future signals.''\<rparr>)"
  using assms
  by (auto simp add: deriveRecommendation_def list_ex_iff riskScore_of_def riskLevel_of_def Let_def
      split: option.splits if_splits)

theorem elevated_review_else_monitor_witness:
  "([] :: Dispute list) = []
   \<and> \<not> actionable (example_warning ''issfr_1'' False)
   \<and> deriveRecommendation
        (example_charge ''ch_1'' (Some (example_outcome (Some ''elevated'') (Some 10))))
        [example_warning ''issfr_1'' False] []
      = \<lparr>action = manual_review,
         reason = ''Elevated risk level. Review supporting evidence before issuing refund.''\<rparr>
   \<and> deriveRecommendation (example_charge ''ch_2'' (Some (example_outcome None (Some 50))))
        [example_warning ''issfr_1'' False] []
      = \<lparr>action = manual_review,
         reason = ''Elevated risk level. Review supporting evidence before issuing refund.''\<rparr>
   \<and> deriveRecommendation (example_charge ''ch_3'' (Some (example_outcome None (Some 49))))
        [example_warning ''issfr_1'' False] []
      = \<lparr>action = monitor,
         reason = ''No disputes or actionable warnings. Monitor the transaction for future signals.''\<rparr>
   \<and> deriveRecommendation (example_charge ''ch_4'' None) [] []
      = \<lparr>action = monitor,
         reason = ''No disputes or actionable warnings. Monitor the transaction for future signals.''\<rparr>"
proof -
  let ?a = "example_charge ''ch_1'' (Some (example_outcome (Some ''elevated'') (Some 10)))"
  let ?b = "example_charge ''ch_2'' (Some (example_outcome None (Some 50)))"
  let ?c = "example_charge ''ch_3'' (Some (example_outcome None (Some 49)))"
  let ?d = "example_charge ''ch_4'' None"
  let ?ws = "[example_warning ''issfr_1'' False]"
  have w: "\<forall>w \<in> set ?ws. \<not> actionable w"
    by (simp add: example_warning_def)
  have e: "\<forall>w \<in> set ([] :: EarlyFraudWarning list). \<not> actionable w"
    by simp
  have low: "\<not> (\<exists>oc. outcome x = Some oc \<and>
               (risk_level oc = Some ''highest'' \<or> (\<exists>s. risk_score oc = Some s \<and> 75 \<le> s)))"
    if "x = ?a \<or> x = ?b \<or> x = ?c \<or> x = ?d" for x
    using that by (auto simp add: example_defs)
  from elevated_review_else_monitor [OF refl w low [of ?a]]
    elevated_review_else_monitor [OF refl w low [of ?b]]
    elevated_review_else_monitor [OF refl w low [of ?c]]
    elevated_review_else_monitor [OF refl e low [of ?d]]
  show ?thesis
    using w by (simp add: example_defs)
qed

lemma someActionable_typed:
  "someActionable (map Some ws) = Inr (list_ex actionable ws)"
  by (induction ws) simp_all

lemma deriveRecommendation_runtime_world:
  "snd (deriveRecommendation_runtime world ch w d) = world"
  by (simp add: deriveRecommendation_runtime_def Let_def
      split: option.splits sum.splits bool.splits)

lemma deriveRecommendation_runtime_result:
  "fst (deriveRecommendation_runtime world ch w d) =
   fst (deriveRecommendation_runtime world' ch w d)"
  by (simp add: deriveRecommendation_runtime_def Let_def
      split: option.splits sum.splits bool.splits)

text \<open>
  C5. The evaluator is total, pure and deterministic. On well-typed arguments (a charge, an
  array of warnings and an array of disputes, none of them null; the outcome, its level and
  its score may be absent) the call throws nothing and returns the recommendation of the
  decision table. On any arguments the call leaves the world as it found it and its result,
  a recommendation or the error thrown, is the same in every world. The recommendation is a
  function of the outcome of the charge (not of its other fields), the warnings and the
  disputes: inputs that agree on these three get the same action and the same reason.
\<close>

theorem deriveRecommendation_total_deterministic:
  "deriveRecommendation_runtime world (Some c) (Some (map Some ws)) (Some ds) =
     (Inr (deriveRecommendation c ws ds), world)
   \<and> snd (deriveRecommendation_runtime world ch w d) = world
   \<and> fst (deriveRecommendation_runtime world ch w d) =
       fst (deriveRecommendation_runtime world' ch w d)
   \<and> (outcome c = outcome c' \<and> ws = ws' \<and> ds = ds' \<longrightarrow>
        action (deriveRecommendation c ws ds) = action (deriveRecommendation c' ws' ds') \<and>
        reason (deriveRecommendation c ws ds) = reason (deriveRecommendation c' ws' ds'))"
proof (intro conjI impI)
  show "deriveRecommendation_runtime world (Some c) (Some (map Some ws)) (Some ds) =
          (Inr (deriveRecommendation c ws ds), world)"
    by (simp add: deriveRecommendation_runtime_def deriveRecommendation_def
        someActionable_typed Let_def)
next
  show "snd (deriveRecommendation_runtime world ch w d) = world"
    by (rule deriveRecommendation_runtime_world)
next
  show "fst (deriveRecommendation_runtime world ch w d) =
          fst (deriveRecommendation_runtime world' ch w d)"
    by (rule deriveRecommendation_runtime_result)
next
  assume same: "outcome c = outcome c' \<and> ws = ws' \<and> ds = ds'"
  then have "riskLevel_of c = riskLevel_of c'" "riskScore_of c = riskScore_of c'"
    by (simp_all add: riskLevel_of_def riskScore_of_def)
  with same have "deriveRecommendation c ws ds = deriveRecommendation c' ws' ds'"
    by (simp add: deriveRecommendation_def)
  then show "action (deriveRecommendation c ws ds) = action (deriveRecommendation c' ws' ds')"
    and "reason (deriveRecommendation c ws ds) = reason (deriveRecommendation c' ws' ds')"
    by simp_all
qed

theorem deriveRecommendation_total_deterministic_witness:
  "deriveRecommendation_runtime \<lparr>console = [''started''], clock = 1700000000\<rparr>
     (Some (Charge ''ch_1'' None Absent Absent None))
     (Some [Some (example_warning ''issfr_1'' False)]) (Some [])
   = (Inr \<lparr>action = monitor,
           reason = ''No disputes or actionable warnings. Monitor the transaction for future signals.''\<rparr>,
      \<lparr>console = [''started''], clock = 1700000000\<rparr>)
   \<and> deriveRecommendation_runtime \<lparr>console = [], clock = 0\<rparr>
       None (Some [Some (example_warning ''issfr_1'' False)]) (Some [])
     = (Inl (TypeError ''outcome''), \<lparr>console = [], clock = 0\<rparr>)
   \<and> outcome (Charge ''ch_1'' (Some (example_outcome (Some ''elevated'') None)) Absent Absent None)
     = outcome (Charge ''ch_2'' (Some (example_outcome (Some ''elevated'') None))
                  (Ref ''prv_1'') (Ref ''pi_1'') (Some []))
   \<and> deriveRecommendation
       (Charge ''ch_1'' (Some (example_outcome (Some ''elevated'') None)) Absent Absent None)
       [example_warning ''issfr_1'' False] []
     = deriveRecommendation
       (Charge ''ch_2'' (Some (example_outcome (Some ''elevated'') None))
          (Ref ''prv_1'') (Ref ''pi_1'') (Some []))
       [example_warning ''issfr_1'' False] []"
proof -
  let ?w = "\<lparr>console = [''started''], clock = 1700000000\<rparr>"
  let ?c0 = "Charge ''ch_1'' None Absent Absent None"
  let ?c1 = "Charge ''ch_1'' (Some (example_outcome (Some ''elevated'') None)) Absent Absent None"
  let ?c2 = "Charge ''ch_2'' (Some (example_outcome (Some ''elevated'') None))
               (Ref ''prv_1'') (Ref ''pi_1'') (Some [])"
  let ?ws = "[example_warning ''issfr_1'' False]"
  have v: "deriveRecommendation ?c0 ?ws [] =
      \<lparr>action = monitor,
       reason = ''No disputes or actionable warnings. Monitor the transaction for future signals.''\<rparr>"
    by (simp add: deriveRecommendation_def riskScore_of_def riskLevel_of_def example_defs)
  have f: "deriveRecommendation_runtime \<lparr>console = [], clock = 0\<rparr> None (Some [Some (example_warning ''issfr_1'' False)]) (Some [])
     = (Inl (TypeError ''outcome''), \<lparr>console = [], clock = 0\<rparr>)"
    by (simp add: deriveRecommendation_runtime_def example_warning_def)
  have r: "deriveRecommendation ?c1 ?ws [] =
      \<lparr>action = action (deriveRecommendation ?c1 ?ws []),
       reason = reason (deriveRecommendation ?c1 ?ws [])\<rparr>"
    "deriveRecommendation ?c2 ?ws [] =
      \<lparr>action = action (deriveRecommendation ?c2 ?ws []),
       reason = reason (deriveRecommendation ?c2 ?ws [])\<rparr>"
    by simp_all
  from deriveRecommendation_total_deterministic [of ?w ?c0 ?ws "[]" None None None ?w ?c0 ?ws "[]"]
    deriveRecommendation_total_deterministic [of ?w ?c1 ?ws "[]" None None None ?w ?c2 ?ws "[]"]
  show ?thesis
    by (subst r(1), subst r(2)) (simp add: v f)
qed

text \<open>
  C6. The evaluator reads the dispute list only through its being empty or not, and the
  warnings only through their actionable flags: two inputs with the same outcome on the
  charge, dispute lists that are both empty or both non-empty, and the same multiset of
  actionable flags get the same recommendation, action and reason.
\<close>

theorem depends_only_on_signals:
  assumes "outcome c = outcome c'"
    and "ds = [] \<longleftrightarrow> ds' = []"
    and "mset (map actionable ws) = mset (map actionable ws')"
  shows "deriveRecommendation c ws ds = deriveRecommendation c' ws' ds'"
proof -
  have lvl: "riskLevel_of c = riskLevel_of c'"
    and sc: "riskScore_of c = riskScore_of c'"
    using assms(1) by (simp_all add: riskLevel_of_def riskScore_of_def)
  have flags: "set (map actionable ws) = set (map actionable ws')"
    using assms(3) by (rule mset_eq_setD)
  have some: "list_ex actionable xs \<longleftrightarrow> True \<in> set (map actionable xs)" for xs
    by (auto simp add: list_ex_iff)
  have w: "list_ex actionable ws = list_ex actionable ws'"
    unfolding some flags ..
  have d: "(length ds > 0) = (length ds' > 0)"
    using assms(2) by simp
  show ?thesis
    unfolding deriveRecommendation_def lvl sc w d ..
qed

theorem depends_only_on_signals_witness:
  "outcome (Charge ''ch_1'' (Some (example_outcome None (Some 10))) Absent Absent None)
     = outcome (Charge ''ch_2'' (Some (example_outcome None (Some 10))) (Ref ''prv_1'') Absent (Some []))
   \<and> ([example_dispute ''dp_1''] = [] \<longleftrightarrow> [example_dispute ''dp_2'', example_dispute ''dp_3''] = [])
   \<and> mset (map actionable [example_warning ''issfr_1'' False, example_warning ''issfr_2'' True])
       = mset (map actionable [example_warning ''issfr_3'' True, example_warning ''issfr_4'' False])
   \<and> deriveRecommendation
        (Charge ''ch_1'' (Some (example_outcome None (Some 10))) Absent Absent None)
        [example_warning ''issfr_1'' False, example_warning ''issfr_2'' True]
        [example_dispute ''dp_1'']
     = deriveRecommendation
        (Charge ''ch_2'' (Some (example_outcome None (Some 10))) (Ref ''prv_1'') Absent (Some []))
        [example_warning ''issfr_3'' True, example_warning ''issfr_4'' False]
        [example_dispute ''dp_2'', example_dispute ''dp_3'']"
proof -
  have o: "outcome (Charge ''ch_1'' (Some (example_outcome None (Some 10))) Absent Absent None)
     = outcome (Charge ''ch_2'' (Some (example_outcome None (Some 10))) (Ref ''prv_1'') Absent (Some []))"
    by simp
  have d: "[example_dispute ''dp_1''] = [] \<longleftrightarrow> [example_dispute ''dp_2'', example_dispute ''dp_3''] = []"
    by simp
  have m: "mset (map actionable [example_warning ''issfr_1'' False, example_warning ''issfr_2'' True])
       = mset (map actionable [example_warning ''issfr_3'' True, example_warning ''issfr_4'' False])"
    by (simp add: example_warning_def)
  from depends_only_on_signals [OF o d m] show ?thesis
    using o d m by simp
qed

section \<open>Properties of the caller and of the tool handlers\<close>




text \<open>
  C8. The handler of the fraud insight tool and the handler of the refund tool both throw an
  error when neither a payment intent identifier nor a charge identifier is given (an empty
  string counts as not given). A call that returns a result had at least one of the two, and
  with at least one of the two the handler goes on to its work.
\<close>

theorem identifier_required:
  "(\<not> truthy (payment_intent_id fi) \<and> \<not> truthy (charge_id fi) \<longrightarrow>
      stripe_fraud_insight stripe fi =
        Inl (Error ''You must provide either payment_intent_id or charge_id to retrieve fraud insights.''))
   \<and> (\<not> truthy (payment_intent_id ri) \<and> \<not> truthy (charge_id ri) \<longrightarrow>
      stripe_create_refund stripe ri =
        Inl (Error ''You must provide either payment_intent_id or charge_id to create a refund.''))
   \<and> (\<forall>res. stripe_fraud_insight stripe fi = Inr res \<longrightarrow>
         truthy (payment_intent_id fi) \<or> truthy (charge_id fi))
   \<and> (\<forall>res. stripe_create_refund stripe ri = Inr res \<longrightarrow>
         truthy (payment_intent_id ri) \<or> truthy (charge_id ri))
   \<and> (truthy (payment_intent_id fi) \<or> truthy (charge_id fi) \<longrightarrow>
         stripe_fraud_insight stripe fi = buildFraudInsight stripe fi)
   \<and> (truthy (payment_intent_id ri) \<or> truthy (charge_id ri) \<longrightarrow>
         stripe_create_refund stripe ri = refunds_create stripe (refundParams ri))"
  by (auto simp add: stripe_fraud_insight_def stripe_create_refund_def)

theorem identifier_required_witness:
  "\<not> truthy (payment_intent_id \<lparr>payment_intent_id = None, charge_id = Some '''', include_events = True\<rparr>)
   \<and> \<not> truthy (charge_id \<lparr>payment_intent_id = None, charge_id = Some '''', include_events = True\<rparr>)
   \<and> stripe_fraud_insight example_stripe
        \<lparr>payment_intent_id = None, charge_id = Some '''', include_events = True\<rparr>
      = Inl (Error ''You must provide either payment_intent_id or charge_id to retrieve fraud insights.'')
   \<and> \<not> truthy (payment_intent_id
         \<lparr>payment_intent_id = None, charge_id = None, input_amount = Some 500,
          input_reason = Some ''fraudulent'', input_metadata = None\<rparr>)
   \<and> \<not> truthy (charge_id
         \<lparr>payment_intent_id = None, charge_id = None, input_amount = Some 500,
          input_reason = Some ''fraudulent'', input_metadata = None\<rparr>)
   \<and> stripe_create_refund example_stripe
        \<lparr>payment_intent_id = None, charge_id = None, input_amount = Some 500,
         input_reason = Some ''fraudulent'', input_metadata = None\<rparr>
      = Inl (Error ''You must provide either payment_intent_id or charge_id to create a refund.'')"
  using identifier_required
    [of "\<lparr>payment_intent_id = None, charge_id = Some '''', include_events = True\<rparr>"
        example_stripe
        "\<lparr>payment_intent_id = None, charge_id = None, input_amount = Some 500,
          input_reason = Some ''fraudulent'', input_metadata = None\<rparr>"]
  by (simp add: truthy_def)

lemmas branch_congs =
  option.case_cong sum.case_cong expandable.case_cong prod.case_cong list.case_cong if_cong

lemma byPaymentIntent_ignores_disputes:
  "byPaymentIntent (stripe\<lparr>disputes_list := other\<rparr>) input st = byPaymentIntent stripe input st"
  by (simp add: byPaymentIntent_def cong: branch_congs)

lemma byCharge_ignores_disputes:
  "byCharge (stripe\<lparr>disputes_list := other\<rparr>) input st = byCharge stripe input st"
  by (simp add: byCharge_def cong: branch_congs)

lemma byChargeList_ignores_disputes:
  "byChargeList (stripe\<lparr>disputes_list := other\<rparr>) st = byChargeList stripe st"
  by (simp add: byChargeList_def cong: branch_congs)

lemma resolveCharge_ignores_disputes:
  "resolveCharge (stripe\<lparr>disputes_list := other\<rparr>) input = resolveCharge stripe input"
  by (simp add: resolveCharge_def byPaymentIntent_ignores_disputes byCharge_ignores_disputes
      byChargeList_ignores_disputes cong: branch_congs)

lemma collectRadar_without_events:
  assumes "\<not> include_events input"
  shows "collectRadar evaluate stripe input result ch =
           collectRadar (\<lambda>c ws ds. evaluate c ws []) stripe input result ch"
    and "collectRadar evaluate (stripe\<lparr>disputes_list := other\<rparr>) input result ch =
           collectRadar evaluate stripe input result ch"
  using assms
  by (simp_all add: collectRadar_def collectDisputes_def collectReviews_def collectRefunds_def
      cong: branch_congs)

lemma no_dispute_no_dispute_reason:
  "reason (deriveRecommendation c ws []) \<noteq>
     ''Existing dispute detected. Prefer immediate refund to reduce losses.''"
  by (simp add: deriveRecommendation_def high_risk_reason_def Let_def)

lemma collectRadar_without_events_result:
  assumes "\<not> include_events input"
    and "collectRadar deriveRecommendation stripe input result ch = Inr res"
  shows "reason (recommendation res) \<noteq>
           ''Existing dispute detected. Prefer immediate refund to reduce losses.''
         \<and> (ch = None \<or> (\<exists>c ws. ch = Some c \<and> recommendation res = deriveRecommendation c ws []))"
proof (cases ch)
  case None
  with assms(2) show ?thesis
    by (auto simp add: collectRadar_def)
next
  case (Some c)
  with assms show ?thesis
    by (auto simp add: collectRadar_def collectDisputes_def no_dispute_no_dispute_reason
        split: sum.splits)
qed

text \<open>
  C9. With \<^verbatim>\<open>include_events = false\<close> the disputes are not listed: the evaluator is
  called with the empty dispute list (replacing the evaluator by one that ignores its dispute
  argument changes nothing), the result does not depend on what the provider would list as
  disputes, and a returned recommendation is never the refund of the dispute rule.
\<close>

theorem no_events_no_dispute_refund:
  assumes "\<not> include_events input"
  shows "buildFraudInsightWith evaluate stripe input =
           buildFraudInsightWith (\<lambda>c ws ds. evaluate c ws []) stripe input
       \<and> buildFraudInsight (stripe\<lparr>disputes_list := other\<rparr>) input = buildFraudInsight stripe input
       \<and> (\<forall>res. buildFraudInsight stripe input = Inr res \<longrightarrow>
             reason (recommendation res) \<noteq>
               ''Existing dispute detected. Prefer immediate refund to reduce losses.'')"
proof (intro conjI allI impI)
  show "buildFraudInsightWith evaluate stripe input =
          buildFraudInsightWith (\<lambda>c ws ds. evaluate c ws []) stripe input"
    unfolding buildFraudInsightWith_def
    by (simp add: collectRadar_without_events(1) [OF assms, of evaluate] split: sum.splits)
next
  show "buildFraudInsight (stripe\<lparr>disputes_list := other\<rparr>) input = buildFraudInsight stripe input"
    unfolding buildFraudInsight_def buildFraudInsightWith_def resolveCharge_ignores_disputes
    by (simp add: collectRadar_without_events(2) [OF assms] split: sum.splits)
next
  fix res
  assume r: "buildFraudInsight stripe input = Inr res"
  then obtain result pint ch where
    "collectRadar deriveRecommendation stripe input result ch = Inr res"
    by (auto simp add: buildFraudInsight_def buildFraudInsightWith_def split: sum.splits)
  from collectRadar_without_events_result [OF assms this]
  show "reason (recommendation res) \<noteq>
          ''Existing dispute detected. Prefer immediate refund to reduce losses.''"
    by simp
qed

theorem no_events_no_dispute_refund_witness:
  "\<not> include_events \<lparr>payment_intent_id = None, charge_id = Some ''ch_1'', include_events = False\<rparr>
   \<and> disputes_list example_stripe ''ch_1'' = Inr [example_dispute ''dp_1'']
   \<and> (\<exists>res. buildFraudInsight example_stripe
               \<lparr>payment_intent_id = None, charge_id = Some ''ch_1'', include_events = False\<rparr>
             = Inr res
           \<and> recommendation res =
               \<lparr>action = monitor,
                reason = ''No disputes or actionable warnings. Monitor the transaction for future signals.''\<rparr>
           \<and> reason (recommendation res) \<noteq>
               ''Existing dispute detected. Prefer immediate refund to reduce losses.'')"
proof -
  let ?input = "\<lparr>payment_intent_id = None, charge_id = Some ''ch_1'', include_events = False\<rparr>"
  have h: "\<not> include_events ?input"
    by simp
  have r: "resolveCharge example_stripe ?input =
      Inr (baseline\<lparr>charge := Some (summarizeCharge
              (example_charge ''ch_1'' (Some (example_outcome (Some ''normal'') (Some 12)))))\<rparr>,
           None,
           Some (example_charge ''ch_1'' (Some (example_outcome (Some ''normal'') (Some 12)))))"
    by (simp add: resolveCharge_def byPaymentIntent_def byCharge_def byChargeList_def
        example_stripe_def example_charge_def)
  have d: "deriveRecommendation
             (example_charge ''ch_1'' (Some (example_outcome (Some ''normal'') (Some 12)))) [] []
           = \<lparr>action = monitor,
              reason = ''No disputes or actionable warnings. Monitor the transaction for future signals.''\<rparr>"
    by (simp add: deriveRecommendation_def riskLevel_of_def riskScore_of_def example_defs)
  let ?c = "example_charge ''ch_1'' (Some (example_outcome (Some ''normal'') (Some 12)))"
  have i: "ch_id ?c = ''ch_1''"
    by (simp add: example_charge_def)
  have e: "earlyFraudWarnings_list example_stripe ''ch_1'' = Inr []"
    by (simp add: example_stripe_def)
  have rv: "collectReviews example_stripe ?c = Inr []"
    by (simp add: collectReviews_def example_charge_def)
  have dp: "collectDisputes example_stripe ?input ?c = Inr []"
    by (simp add: collectDisputes_def)
  have rf: "collectRefunds example_stripe ?input ?c = Inr []"
    by (simp add: collectRefunds_def example_charge_def example_stripe_def)
  have b: "\<exists>res. buildFraudInsight example_stripe ?input = Inr res
             \<and> recommendation res =
               \<lparr>action = monitor,
                reason = ''No disputes or actionable warnings. Monitor the transaction for future signals.''\<rparr>"
    by (simp add: buildFraudInsight_def buildFraudInsightWith_def r collectRadar_def
        i e rv dp rf d baseline_def)
  from no_events_no_dispute_refund [OF h] b show ?thesis
    by (auto simp add: example_stripe_def)
qed

section \<open>Properties of sanitizeContext\<close>









end
